theory Spec2Isabelle
  imports Main "HOL-Library.Sublist"
begin

section \<open>JavaScript values and exceptions\<close>

text \<open>
  The values the accessor moves between the form control and the element. The accessor
  never looks inside a value: it tests it against \<open>undefined\<close> and \<open>null\<close>, converts
  it with \<open>Boolean(...)\<close> and compares it with \<open>===\<close>. Objects and arrays are
  therefore references (\<open>JRef\<close>), equal exactly when they are the same object.
  \<open>NaN\<close> is kept apart from the other numbers, since \<open>NaN === NaN\<close> is false.
\<close>

datatype jsval = JUndefined | JNull | JBool bool | JNum int | JNaN | JStr string | JRef nat

text \<open>\<open>a === b\<close>\<close>

definition strict_eq :: "jsval \<Rightarrow> jsval \<Rightarrow> bool" where
  "strict_eq a b \<longleftrightarrow> a = b \<and> a \<noteq> JNaN"

text \<open>\<open>Boolean(v)\<close>\<close>

fun to_boolean :: "jsval \<Rightarrow> bool" where
  "to_boolean JUndefined = False"
| "to_boolean JNull = False"
| "to_boolean (JBool b) = b"
| "to_boolean (JNum n) = (n \<noteq> 0)"
| "to_boolean JNaN = False"
| "to_boolean (JStr s) = (s \<noteq> [])"
| "to_boolean (JRef r) = True"

text \<open>
  What a call can throw: a \<open>TypeError\<close> of the runtime, an \<open>Error\<close> with its message,
  or whatever the element's own code raised (\<open>Thrown\<close>). A call that may throw returns
  \<open>js_error + 'a\<close>, \<open>Inl\<close> the exception.
\<close>

datatype js_error = TypeError | Error string | Thrown

section \<open>The custom element\<close>

text \<open>
  The element is foreign code. Its state is a value of type \<open>'e\<close>; an
  \<open>element_class\<close> says how it answers the three things the accessor does to it:
  \<open>property in element\<close>, \<open>element[property]\<close> and \<open>element[property] = v\<close>.
  Reading is taken to be free of effects. An assignment runs the element's setter, which
  may store the value, coerce it, ignore it or throw, and may dispatch change events
  before it returns: \<open>after\<close> is the element's state once the assignment is over and
  \<open>emitted\<close> the events it dispatched meanwhile, each with the state the element was
  in at that moment (\<open>target\<close>).
\<close>

record 'e event =
  event_type :: string
  detail :: jsval
  target :: 'e

record 'e assignment =
  threw :: bool
  after :: 'e
  emitted :: "'e event list"

record 'e element_class =
  has_prop :: "'e \<Rightarrow> string \<Rightarrow> bool"
  get_prop :: "'e \<Rightarrow> string \<Rightarrow> jsval"
  set_prop :: "'e \<Rightarrow> string \<Rightarrow> jsval \<Rightarrow> 'e assignment"

section \<open>OrigamiControlValueAccessor (forms/src/value-accessor.ts)\<close>

text \<open>
  The directive's two private fields, the element it controls, and two traces: every
  \<open>element[p] = v\<close> the directive executed and every call of \<open>this.onChange\<close>, both in
  the order they happened.
\<close>

record 'e accessor =
  isWritingValue :: bool
  useSelectableValueProp :: "bool option"
  nativeElement :: 'e
  assigned :: "(string \<times> jsval) list"
  onChange_calls :: "jsval list"

text \<open>Sequencing of calls that may throw: the first exception ends the sequence.\<close>

definition and_then ::
  "(js_error + 'x) \<times> 's \<Rightarrow> ('x \<Rightarrow> 's \<Rightarrow> (js_error + 'y) \<times> 's) \<Rightarrow> (js_error + 'y) \<times> 's" where
  "and_then m f = (case m of (Inl err, s) \<Rightarrow> (Inl err, s) | (Inr x, s) \<Rightarrow> f x s)"

text \<open>
  \<open>isPropertyDefined\<close>: \<open>!!element && property in element\<close>. The element of a directive
  is a DOM element, an object, so \<open>!!element\<close> holds.
\<close>

definition isPropertyDefined :: "'e element_class \<Rightarrow> 'e \<Rightarrow> string \<Rightarrow> bool" where
  "isPropertyDefined cls element property = has_prop cls element property"

definition isCheckedElement :: "'e element_class \<Rightarrow> 'e \<Rightarrow> bool" where
  "isCheckedElement cls element = isPropertyDefined cls element ''checked''"

definition isSelectable :: "'e element_class \<Rightarrow> 'e \<Rightarrow> bool" where
  "isSelectable cls element =
     (isPropertyDefined cls element ''selected'' \<or> isPropertyDefined cls element ''selectedItem'')"

text \<open>Both disjuncts of the source test \<open>selectedValues\<close>.\<close>

definition isMultiSelectable :: "'e element_class \<Rightarrow> 'e \<Rightarrow> bool" where
  "isMultiSelectable cls element =
     (get_prop cls element ''multi'' = JBool True \<and>
      (isPropertyDefined cls element ''selectedValues'' \<or>
       isPropertyDefined cls element ''selectedValues''))"

definition isValidatable :: "'e element_class \<Rightarrow> 'e \<Rightarrow> bool" where
  "isValidatable cls element = isPropertyDefined cls element ''invalid''"

text \<open>
  \<open>element[p] = v\<close>, executed by the directive. The events the setter dispatches reach
  the directive's listener one by one, while the assignment is still running; an
  exception of a listener does not reach the assigning code. The result says whether
  the assignment threw.
\<close>

definition deliver ::
  "('e accessor \<Rightarrow> 'e event \<Rightarrow> 'e accessor) \<Rightarrow> 'e accessor \<Rightarrow> 'e event list \<Rightarrow> 'e accessor" where
  "deliver listener a evs = fold (\<lambda>ev s. listener (s\<lparr>nativeElement := target ev\<rparr>) ev) evs a"

definition assign_prop ::
  "('e accessor \<Rightarrow> 'e event \<Rightarrow> 'e accessor) \<Rightarrow> 'e element_class \<Rightarrow> 'e accessor \<Rightarrow>
     string \<Rightarrow> jsval \<Rightarrow> bool \<times> 'e accessor" where
  "assign_prop listener cls a p v =
     (let r = set_prop cls (nativeElement a) p v;
          a1 = deliver listener (a\<lparr>assigned := assigned a @ [(p, v)]\<rparr>) (emitted r)
      in (threw r, a1\<lparr>nativeElement := after r\<rparr>))"

text \<open>The two candidate properties, by \<open>isMulti\<close>.\<close>

definition valueProp :: "bool \<Rightarrow> string" where
  "valueProp isMulti = (if isMulti then ''selectedItems'' else ''selectedItem'')"

definition indexProp :: "bool \<Rightarrow> string" where
  "indexProp isMulti = (if isMulti then ''selectedValues'' else ''selected'')"

text \<open>
  \<open>getSelectableProperty(element, value?)\<close>, with the listener that the element's
  events reach as a parameter (it is \<open>onChangedEvent\<close>, defined below, which itself calls
  this method without a value). An omitted \<open>value\<close> is \<open>JUndefined\<close>. The result is
  the property name, \<open>None\<close> for \<open>undefined\<close>, or the exception of the second
  assignment, which no \<open>try\<close> surrounds.
\<close>

definition getSelectableProperty_in ::
  "('e accessor \<Rightarrow> 'e event \<Rightarrow> 'e accessor) \<Rightarrow> 'e element_class \<Rightarrow> 'e accessor \<Rightarrow> jsval \<Rightarrow>
     (js_error + string option) \<times> 'e accessor" where
  "getSelectableProperty_in listener cls a v =
     (let element = nativeElement a;
          isMulti = isMultiSelectable cls element
      in case useSelectableValueProp a of
           Some b \<Rightarrow> (Inr (Some (if b then valueProp isMulti else indexProp isMulti)), a)
         | None \<Rightarrow>
             (let hasValueProp = has_prop cls element (valueProp isMulti);
                  hasIndexProp = has_prop cls element (indexProp isMulti)
              in if hasValueProp \<and> \<not> hasIndexProp then
                   (Inr (Some (valueProp isMulti)), a\<lparr>useSelectableValueProp := Some True\<rparr>)
                 else if \<not> hasValueProp \<and> hasIndexProp then
                   (Inr (Some (indexProp isMulti)), a\<lparr>useSelectableValueProp := Some False\<rparr>)
                 else if v \<noteq> JUndefined \<and> v \<noteq> JNull then
                   (let previousValue = get_prop cls element (valueProp isMulti);
                        a1 = snd (assign_prop listener cls a (valueProp isMulti) v);
                        a2 = a1\<lparr>useSelectableValueProp :=
                               Some (strict_eq (get_prop cls (nativeElement a1) (valueProp isMulti)) v)\<rparr>;
                        (t, a3) = assign_prop listener cls a2 (valueProp isMulti) previousValue
                    in if t then (Inl Thrown, a3)
                       else (Inr (Some (if useSelectableValueProp a3 = Some True
                                        then valueProp isMulti else indexProp isMulti)), a3))
                 else (Inr None, a)))"

text \<open>The listener that is never reached: for the calls that assign nothing.\<close>

definition no_listener :: "'e accessor \<Rightarrow> 'e event \<Rightarrow> 'e accessor" where
  "no_listener a ev = a"

text \<open>
  \<open>onChangedEvent(event)\<close>, the one handler of the six change events. Where
  \<open>getSelectableProperty\<close> returns \<open>undefined\<close>, \<open>element[property]\<close> reads the
  property named \<open>undefined\<close>. \<open>this.onChange\<close> is the callback of the owning
  control; the model records its argument.
\<close>

definition onChangedEvent ::
  "'e element_class \<Rightarrow> 'e accessor \<Rightarrow> 'e event \<Rightarrow> (js_error + unit) \<times> 'e accessor" where
  "onChangedEvent cls a ev =
     (if \<not> isWritingValue a then
        (let element = nativeElement a in
         and_then
           (if event_type ev = ''selected-items-changed'' \<or> event_type ev = ''selected-item-changed'' then
              and_then (getSelectableProperty_in no_listener cls a JUndefined)
                (\<lambda>property a1.
                   (Inr (property = Some ''selectedItems'' \<or> property = Some ''selectedItem''), a1))
            else if event_type ev = ''selected-values-changed'' \<or> event_type ev = ''selected-changed'' then
              and_then (getSelectableProperty_in no_listener cls a JUndefined)
                (\<lambda>property a1.
                   (Inr (property = Some ''selectedValues'' \<or> property = Some ''selected''), a1))
            else (Inr True, a))
           (\<lambda>changed a1.
              if changed then
                and_then
                  (if isMultiSelectable cls element \<or> isSelectable cls element then
                     and_then (getSelectableProperty_in no_listener cls a1 JUndefined)
                       (\<lambda>property a2.
                          (Inr (case property of Some p \<Rightarrow> p | None \<Rightarrow> ''undefined''), a2))
                   else if isCheckedElement cls element then (Inr ''checked'', a1)
                   else (Inr ''value'', a1))
                  (\<lambda>property a2.
                     (Inr (), a2\<lparr>onChange_calls :=
                                  onChange_calls a2 @ [get_prop cls (nativeElement a2) property]\<rparr>))
              else (Inr (), a1)))
      else (Inr (), a))"

text \<open>The directive as the listener of its element's events.\<close>

definition host_listener :: "'e element_class \<Rightarrow> 'e accessor \<Rightarrow> 'e event \<Rightarrow> 'e accessor" where
  "host_listener cls a ev = snd (onChangedEvent cls a ev)"

definition getSelectableProperty ::
  "'e element_class \<Rightarrow> 'e accessor \<Rightarrow> jsval \<Rightarrow> (js_error + string option) \<times> 'e accessor" where
  "getSelectableProperty cls a v = getSelectableProperty_in (host_listener cls) cls a v"

text \<open>An assignment as a statement: its exception is the statement's.\<close>

definition assign_stmt ::
  "'e element_class \<Rightarrow> 'e accessor \<Rightarrow> string \<Rightarrow> jsval \<Rightarrow> (js_error + unit) \<times> 'e accessor" where
  "assign_stmt cls a p v =
     (case assign_prop (host_listener cls) cls a p v of
        (t, a') \<Rightarrow> (if t then Inl Thrown else Inr (), a'))"

text \<open>
  Modelled from the spec: \<open>super.writeValue\<close> is the framework's
  \<open>DefaultValueAccessor.writeValue\<close>, which is not under src/. The spec's fallback
  carrier is the plain \<open>value\<close> property (sections 2 and 4.1), the one the handler
  above reads in its last branch; the framework assigns it, writing the empty string
  for \<open>null\<close> and \<open>undefined\<close>.
\<close>

definition DefaultValueAccessor_writeValue ::
  "'e element_class \<Rightarrow> 'e accessor \<Rightarrow> jsval \<Rightarrow> (js_error + unit) \<times> 'e accessor" where
  "DefaultValueAccessor_writeValue cls a v =
     assign_stmt cls a ''value'' (if v = JUndefined \<or> v = JNull then JStr [] else v)"

text \<open>
  \<open>writeValue(value)\<close>. The property name that \<open>getSelectableProperty\<close> returns is
  never the empty string, so \<open>if (property)\<close> tests it against \<open>undefined\<close>. The last
  statement is skipped when an exception leaves the method.
\<close>

definition writeValue ::
  "'e element_class \<Rightarrow> 'e accessor \<Rightarrow> jsval \<Rightarrow> (js_error + unit) \<times> 'e accessor" where
  "writeValue cls a0 v =
     (let a = a0\<lparr>isWritingValue := True\<rparr>;
          element = nativeElement a
      in and_then
           (if isMultiSelectable cls element \<or> isSelectable cls element then
              and_then (getSelectableProperty cls a v)
                (\<lambda>property a1.
                   case property of
                     Some p \<Rightarrow> assign_stmt cls a1 p v
                   | None \<Rightarrow> (Inr (), a1))
            else if isCheckedElement cls element then
              assign_stmt cls a ''checked'' (JBool (to_boolean v))
            else DefaultValueAccessor_writeValue cls a v)
           (\<lambda>_ a'. (Inr (), a'\<lparr>isWritingValue := False\<rparr>)))"

text \<open>
  The calls the framework makes during the directive's life: it writes a value, or the
  element, in the state \<open>target\<close>, notifies the directive of a change.
\<close>

datatype 'e call = WriteValue jsval | ChangedEvent "'e event"

fun lifetime :: "'e element_class \<Rightarrow> 'e accessor \<Rightarrow> 'e call list \<Rightarrow> 'e accessor" where
  "lifetime cls a [] = a"
| "lifetime cls a (WriteValue v # cs) = lifetime cls (snd (writeValue cls a v)) cs"
| "lifetime cls a (ChangedEvent ev # cs) =
     lifetime cls (snd (onChangedEvent cls (a\<lparr>nativeElement := target ev\<rparr>) ev)) cs"


fun notified :: "'e call list \<Rightarrow> 'e event list" where
  "notified [] = []"
| "notified (WriteValue v # cs) = notified cs"
| "notified (ChangedEvent ev # cs) = ev # notified cs"

text \<open>A directive that has just been constructed for an element.\<close>

definition new_accessor :: "'e \<Rightarrow> 'e accessor" where
  "new_accessor element =
     \<lparr>isWritingValue = False, useSelectableValueProp = None, nativeElement = element,
      assigned = [], onChange_calls = []\<rparr>"




subsection \<open>Elements to run the directive on\<close>

text \<open>
  An element with a fixed set of properties, its state the list of their values, newest
  first. An assignment to a name it does not have is ignored. The setter of a property
  stores the value, ignores it, throws, stores it and then throws, or stores \<open>null\<close>
  in its place, and announces the assignment with events.
\<close>

datatype reaction = Stores | Ignores | Throws | StoresAndThrows | Clears

type_synonym props = "(string \<times> jsval) list"

definition lookup_prop :: "props \<Rightarrow> string \<Rightarrow> jsval" where
  "lookup_prop e p = (case map_of e p of Some v \<Rightarrow> v | None \<Rightarrow> JUndefined)"

definition custom_element ::
  "(string \<Rightarrow> jsval \<Rightarrow> reaction) \<Rightarrow> (string \<Rightarrow> string list) \<Rightarrow> props element_class" where
  "custom_element react announces =
     \<lparr>has_prop = (\<lambda>e p. map_of e p \<noteq> None),
      get_prop = lookup_prop,
      set_prop = (\<lambda>e p v.
        let r = (if map_of e p = None then Ignores else react p v);
            e' = (if r = Stores \<or> r = StoresAndThrows then (p, v) # e
                  else if r = Clears then (p, JNull) # e
                  else e)
        in \<lparr>threw = (r = Throws \<or> r = StoresAndThrows), after = e',
            emitted = map (\<lambda>ty. \<lparr>event_type = ty, detail = v, target = e'\<rparr>) (announces p)\<rparr>)\<rparr>"

text \<open>
  An element whose \<open>selectedItem\<close> takes strings only and reacts to any other value
  as given; every other property stores what it is assigned. Each assignment is
  announced with the given events.
\<close>

definition is_string :: "jsval \<Rightarrow> bool" where
  "is_string v = (case v of JStr s \<Rightarrow> True | _ \<Rightarrow> False)"

definition typed_item :: "reaction \<Rightarrow> string list \<Rightarrow> props element_class" where
  "typed_item rejection events =
     custom_element
       (\<lambda>p v. if p = ''selectedItem'' \<and> \<not> is_string v then rejection else Stores)
       (\<lambda>p. events)"


text \<open>A single-select element with both candidate properties, and its item.\<close>

definition single_select :: "jsval \<Rightarrow> props" where
  "single_select item = [(''selected'', JNum 0), (''selectedItem'', item)]"

section \<open>Build configuration (bin/lib/polyfill/util.ts)\<close>

text \<open>
  A loaded configuration file is JSON. A property that an object does not have reads as
  \<open>undefined\<close>, which is \<open>None\<close> below. Strings are lists of 8-bit characters;
  \<open>toLowerCase\<close> maps the ASCII capitals and leaves every other character as it is.
\<close>

datatype json =
    JsonNull
  | JsonBool bool
  | JsonNumber int
  | JsonString string
  | JsonArray "json list"
  | JsonObject "(string \<times> json) list"

text \<open>
  \<open>obj.key\<close> for the two keys this module reads from a value of type \<open>any\<close>
  (\<open>compilerOptions\<close>, \<open>target\<close>): a \<open>TypeError\<close> on \<open>undefined\<close> and
  \<open>null\<close>, the member of an object, and \<open>undefined\<close> on every other value, none of
  which has a member of either name.
\<close>

definition get_member :: "json option \<Rightarrow> string \<Rightarrow> js_error + json option" where
  "get_member obj key =
     (case obj of
        None \<Rightarrow> Inl TypeError
      | Some JsonNull \<Rightarrow> Inl TypeError
      | Some (JsonObject members) \<Rightarrow> Inr (map_of members key)
      | Some _ \<Rightarrow> Inr None)"

definition toLowerCase_char :: "char \<Rightarrow> char" where
  "toLowerCase_char c =
     (case map_of (zip ''ABCDEFGHIJKLMNOPQRSTUVWXYZ'' ''abcdefghijklmnopqrstuvwxyz'') c of
        Some l \<Rightarrow> l
      | None \<Rightarrow> c)"

text \<open>
  \<open>t.toLowerCase()\<close>: only a string has the method; on \<open>undefined\<close> and \<open>null\<close>
  the member access throws, on any other JSON value the call of a non-function does.
\<close>

definition call_toLowerCase :: "json option \<Rightarrow> js_error + string" where
  "call_toLowerCase t =
     (case t of
        Some (JsonString s) \<Rightarrow> Inr (map toLowerCase_char s)
      | _ \<Rightarrow> Inl TypeError)"

definition isEs5 :: "json \<Rightarrow> js_error + bool" where
  "isEs5 tsconfig =
     (case get_member (Some tsconfig) ''compilerOptions'' of
        Inl err \<Rightarrow> Inl err
      | Inr compilerOptions \<Rightarrow>
          (case get_member compilerOptions ''target'' of
             Inl err \<Rightarrow> Inl err
           | Inr t \<Rightarrow>
               (case call_toLowerCase t of
                  Inl err \<Rightarrow> Inl err
                | Inr lowered \<Rightarrow> Inr (lowered = ''es5''))))"

text \<open>
  The host: \<open>path.resolve\<close>, \<open>fs.exists\<close> and \<open>require\<close> are Node's, taken as
  parameters. Every function that touches the file system returns, next to its result,
  the accesses it made, in order.
\<close>

record node =
  path_resolve :: "string list \<Rightarrow> string"
  file_exists :: "string \<Rightarrow> bool"
  require :: "string \<Rightarrow> js_error + json"

datatype access = Exists string | Require string

text \<open>The rejected promise of the \<open>async\<close> function is the \<open>Inl\<close> result.\<close>

definition getAngularJsonPath :: "node \<Rightarrow> (js_error + string) \<times> access list" where
  "getAngularJsonPath host =
     (let angularJsonPath = path_resolve host [''./angular.json''];
          angularCliJsonPath = path_resolve host [''./.angular-cli.json'']
      in if file_exists host angularJsonPath then
           (Inr angularJsonPath, [Exists angularJsonPath])
         else if file_exists host angularCliJsonPath then
           (Inr angularCliJsonPath, [Exists angularJsonPath, Exists angularCliJsonPath])
         else
           (Inl (Error ''Unable to find angular.json or .angular-cli.json in current directory''),
            [Exists angularJsonPath, Exists angularCliJsonPath]))"

text \<open>
  The typed views of the two schemas, with the fields the queries read
  (\<open>architect.options.tsConfig\<close> is \<open>tsConfig\<close>); an architect entry that the
  project does not define is \<open>None\<close>.
\<close>

datatype AngularJsonProjectArchitectType = build | test

record AngularJsonProjectArchitect =
  tsConfig :: string

record AngularJsonProject =
  root :: string
  architect :: "AngularJsonProjectArchitectType \<Rightarrow> AngularJsonProjectArchitect option"

record AngularCliJsonApp =
  root :: string
  tsconfig :: string

definition isAngularJsonEs5 ::
  "node \<Rightarrow> AngularJsonProject \<Rightarrow> AngularJsonProjectArchitectType \<Rightarrow>
     (js_error + bool) \<times> access list" where
  "isAngularJsonEs5 host json ty =
     (case architect json ty of
        Some arch \<Rightarrow>
          (let file = path_resolve host [AngularJsonProject.root json, tsConfig arch]
           in (case require host file of
                 Inl err \<Rightarrow> Inl err
               | Inr config \<Rightarrow> isEs5 config,
               [Require file]))
      | None \<Rightarrow> (Inr False, []))"

definition isAngularCliJsonEs5 ::
  "node \<Rightarrow> AngularCliJsonApp \<Rightarrow> (js_error + bool) \<times> access list" where
  "isAngularCliJsonEs5 host json =
     (let file = path_resolve host [AngularCliJsonApp.root json, tsconfig json]
      in (case require host file of
            Inl err \<Rightarrow> Inl err
          | Inr config \<Rightarrow> isEs5 config,
          [Require file]))"

text \<open>
  The compilation target of a configuration, where it has one: the \<open>target\<close> string
  of its \<open>compilerOptions\<close> object.
\<close>

definition target_of :: "json \<Rightarrow> string option" where
  "target_of config =
     (case config of
        JsonObject members \<Rightarrow>
          (case map_of members ''compilerOptions'' of
             Some (JsonObject options) \<Rightarrow>
               (case map_of options ''target'' of
                  Some (JsonString t) \<Rightarrow> Some t
                | _ \<Rightarrow> None)
           | _ \<Rightarrow> None)
      | _ \<Rightarrow> None)"

text \<open>A configuration with the given entries in its \<open>compilerOptions\<close>.\<close>

definition tsconfig_with :: "(string \<times> json) list \<Rightarrow> json" where
  "tsconfig_with options = JsonObject [(''compilerOptions'', JsonObject options)]"

text \<open>A host with the given files, every path resolved to its last segment.\<close>

definition host_with :: "(string \<times> json) list \<Rightarrow> node" where
  "host_with files =
     \<lparr>path_resolve = last,
      file_exists = (\<lambda>file. map_of files file \<noteq> None),
      require = (\<lambda>file. case map_of files file of
                   Some content \<Rightarrow> Inr content
                 | None \<Rightarrow> Inl (Error ''Cannot find module''))\<rparr>"

section \<open>Classification\<close>

lemma isMultiSelectable_iff:
  "isMultiSelectable cls e \<longleftrightarrow>
     get_prop cls e ''multi'' = JBool True \<and> has_prop cls e ''selectedValues''"
  by (simp add: isMultiSelectable_def isPropertyDefined_def)

section \<open>The directive inside and outside a write\<close>

lemma and_then_Inr [simp]: "and_then (Inr x, s) f = f x s"
  by (simp add: and_then_def)

lemma and_then_Inl [simp]: "and_then (Inl e, s) f = (Inl e, s)"
  by (simp add: and_then_def)

lemma getSelectableProperty_in_no_value:
  "v = JUndefined \<or> v = JNull \<Longrightarrow>
   getSelectableProperty_in l cls a v = getSelectableProperty_in no_listener cls a v"
  by (cases "useSelectableValueProp a") (auto simp: getSelectableProperty_in_def Let_def)

lemma getSelectableProperty_decided:
  "useSelectableValueProp a = Some d \<Longrightarrow>
   getSelectableProperty_in l cls a v =
     (Inr (Some (if d then valueProp (isMultiSelectable cls (nativeElement a))
                 else indexProp (isMultiSelectable cls (nativeElement a)))), a)"
  by (simp add: getSelectableProperty_in_def Let_def)

lemma getSelectableProperty_one_exposed:
  "useSelectableValueProp a = None \<Longrightarrow>
   has_prop cls (nativeElement a) (valueProp (isMultiSelectable cls (nativeElement a))) \<noteq>
   has_prop cls (nativeElement a) (indexProp (isMultiSelectable cls (nativeElement a))) \<Longrightarrow>
   getSelectableProperty_in l cls a v =
     (let m = isMultiSelectable cls (nativeElement a);
          d = has_prop cls (nativeElement a) (valueProp m)
      in (Inr (Some (if d then valueProp m else indexProp m)),
          a\<lparr>useSelectableValueProp := Some d\<rparr>))"
  by (auto simp: getSelectableProperty_in_def Let_def)

lemma getSelectableProperty_pending:
  "useSelectableValueProp a = None \<Longrightarrow>
   has_prop cls (nativeElement a) (valueProp (isMultiSelectable cls (nativeElement a))) =
   has_prop cls (nativeElement a) (indexProp (isMultiSelectable cls (nativeElement a))) \<Longrightarrow>
   v = JUndefined \<or> v = JNull \<Longrightarrow>
   getSelectableProperty_in l cls a v = (Inr None, a)"
  by (auto simp: getSelectableProperty_in_def Let_def)

lemma onChangedEvent_suppressed:
  "isWritingValue a \<Longrightarrow> onChangedEvent cls a ev = (Inr (), a)"
  by (simp add: onChangedEvent_def)

lemma deliver_suppressed:
  "isWritingValue a \<Longrightarrow>
   deliver (host_listener cls) a evs =
     a\<lparr>nativeElement := (if evs = [] then nativeElement a else target (last evs))\<rparr>"
proof (induction evs arbitrary: a)
  case Nil
  then show ?case by (simp add: deliver_def)
next
  case (Cons ev evs)
  have step: "host_listener cls (a\<lparr>nativeElement := target ev\<rparr>) ev = a\<lparr>nativeElement := target ev\<rparr>"
    using Cons.prems by (simp add: host_listener_def onChangedEvent_suppressed)
  have "deliver (host_listener cls) a (ev # evs) =
        deliver (host_listener cls) (a\<lparr>nativeElement := target ev\<rparr>) evs"
    by (simp add: deliver_def step)
  also have "\<dots> = (a\<lparr>nativeElement := target ev\<rparr>)
      \<lparr>nativeElement := (if evs = [] then target ev else target (last evs))\<rparr>"
    using Cons.IH [of "a\<lparr>nativeElement := target ev\<rparr>"] Cons.prems by simp
  finally show ?case by simp
qed

lemma assign_prop_suppressed:
  "isWritingValue a \<Longrightarrow>
   assign_prop (host_listener cls) cls a p v =
     (threw (set_prop cls (nativeElement a) p v),
      a\<lparr>assigned := assigned a @ [(p, v)],
        nativeElement := after (set_prop cls (nativeElement a) p v)\<rparr>)"
  by (simp add: assign_prop_def Let_def deliver_suppressed)

lemma assign_stmt_suppressed:
  "isWritingValue a \<Longrightarrow>
   assign_stmt cls a p v =
     (if threw (set_prop cls (nativeElement a) p v) then Inl Thrown else Inr (),
      a\<lparr>assigned := assigned a @ [(p, v)],
        nativeElement := after (set_prop cls (nativeElement a) p v)\<rparr>)"
  by (simp add: assign_stmt_def assign_prop_suppressed)

text \<open>The probe, run inside a write.\<close>

lemma probe_suppressed:
  assumes "isWritingValue a" and "useSelectableValueProp a = None"
    and "has_prop cls (nativeElement a) (valueProp (isMultiSelectable cls (nativeElement a))) =
         has_prop cls (nativeElement a) (indexProp (isMultiSelectable cls (nativeElement a)))"
    and "v \<noteq> JUndefined" and "v \<noteq> JNull"
  shows "getSelectableProperty cls a v =
     (let e = nativeElement a;
          vp = valueProp (isMultiSelectable cls e);
          ip = indexProp (isMultiSelectable cls e);
          r1 = set_prop cls e vp v;
          d = strict_eq (get_prop cls (after r1) vp) v;
          r2 = set_prop cls (after r1) vp (get_prop cls e vp)
      in (if threw r2 then Inl Thrown else Inr (Some (if d then vp else ip)),
          a\<lparr>useSelectableValueProp := Some d,
            assigned := assigned a @ [(vp, v), (vp, get_prop cls e vp)],
            nativeElement := after r2\<rparr>))"
  using assms
  by (simp add: getSelectableProperty_def getSelectableProperty_in_def Let_def
      assign_prop_suppressed)


lemma getSelectableProperty_no_value_frame:
  assumes "v = JUndefined \<or> v = JNull"
  shows "(\<exists>r. fst (getSelectableProperty_in l cls a v) = Inr r) \<and>
         assigned (snd (getSelectableProperty_in l cls a v)) = assigned a \<and>
         nativeElement (snd (getSelectableProperty_in l cls a v)) = nativeElement a \<and>
         isWritingValue (snd (getSelectableProperty_in l cls a v)) = isWritingValue a \<and>
         onChange_calls (snd (getSelectableProperty_in l cls a v)) = onChange_calls a"
proof (cases "useSelectableValueProp a")
  case None
  then show ?thesis
    using assms
    by (auto simp: getSelectableProperty_in_def Let_def)
next
  case (Some d)
  then show ?thesis
    by (simp add: getSelectableProperty_decided)
qed

lemma exposed_is_selectable:
  "has_prop cls e (valueProp (isMultiSelectable cls e)) \<or>
   has_prop cls e (indexProp (isMultiSelectable cls e)) \<Longrightarrow>
   isMultiSelectable cls e \<or> isSelectable cls e"
  by (auto simp: valueProp_def indexProp_def isSelectable_def isPropertyDefined_def
      split: if_splits)

lemma writeValue_one_exposed:
  assumes "useSelectableValueProp a = None"
    and "has_prop cls (nativeElement a) (valueProp (isMultiSelectable cls (nativeElement a))) \<noteq>
         has_prop cls (nativeElement a) (indexProp (isMultiSelectable cls (nativeElement a)))"
  shows "writeValue cls a v =
     (let m = isMultiSelectable cls (nativeElement a);
          d = has_prop cls (nativeElement a) (valueProp m);
          p = (if d then valueProp m else indexProp m);
          r = set_prop cls (nativeElement a) p v
      in (if threw r then Inl Thrown else Inr (),
          a\<lparr>isWritingValue := threw r, useSelectableValueProp := Some d,
            assigned := assigned a @ [(p, v)], nativeElement := after r\<rparr>))"
proof -
  have sel: "isMultiSelectable cls (nativeElement a) \<or> isSelectable cls (nativeElement a)"
    using assms(2) by (intro exposed_is_selectable) auto
  show ?thesis
    using assms sel
    by (simp add: writeValue_def Let_def getSelectableProperty_def
        getSelectableProperty_one_exposed [where a = "a\<lparr>isWritingValue := True\<rparr>", simplified]
        assign_stmt_suppressed)
qed

section \<open>A decided accessor over its lifetime\<close>



section \<open>Lower case and the compilation target\<close>

lemma toLowerCase_char_e:
  "toLowerCase_char c = CHR ''e'' \<longleftrightarrow> c = CHR ''e'' \<or> c = CHR ''E''"
  by (auto simp: toLowerCase_char_def split: if_splits)

lemma toLowerCase_char_s:
  "toLowerCase_char c = CHR ''s'' \<longleftrightarrow> c = CHR ''s'' \<or> c = CHR ''S''"
  by (auto simp: toLowerCase_char_def split: if_splits)

lemma toLowerCase_char_5: "toLowerCase_char c = CHR ''5'' \<longleftrightarrow> c = CHR ''5''"
  by (auto simp: toLowerCase_char_def split: if_splits)

lemma lowered_es5:
  "map toLowerCase_char t = ''es5'' \<longleftrightarrow> t \<in> {''es5'', ''eS5'', ''Es5'', ''ES5''}"
  by (auto simp: map_eq_Cons_conv toLowerCase_char_e toLowerCase_char_s toLowerCase_char_5)

lemma isEs5_target_of:
  "isEs5 config =
     (case target_of config of
        Some t \<Rightarrow> Inr (map toLowerCase_char t = ''es5'')
      | None \<Rightarrow> Inl TypeError)"
  by (simp add: isEs5_def target_of_def get_member_def call_toLowerCase_def
      split: json.splits option.splits)

lemma target_of_tsconfig_with:
  "target_of (tsconfig_with [(''target'', JsonString t)]) = Some t"
  by (simp add: target_of_def tsconfig_with_def)

lemma message_names_both:
  "sublist ''angular.json''
     ''Unable to find angular.json or .angular-cli.json in current directory'' \<and>
   sublist ''.angular-cli.json''
     ''Unable to find angular.json or .angular-cli.json in current directory''"
  by (simp add: sublist_Cons_right)

section \<open>What a write leaves untouched\<close>

lemma and_then_returned:
  "fst m = Inr x \<Longrightarrow> and_then m f = f x (snd m)"
  by (cases m) (simp add: and_then_def)

lemma getSelectableProperty_suppressed_frame:
  assumes "isWritingValue a"
  shows "isWritingValue (snd (getSelectableProperty cls a v)) \<and>
         onChange_calls (snd (getSelectableProperty cls a v)) = onChange_calls a"
proof (cases "useSelectableValueProp a")
  case (Some d)
  then show ?thesis
    using assms by (simp add: getSelectableProperty_def getSelectableProperty_decided)
next
  case None
  show ?thesis
  proof (cases "has_prop cls (nativeElement a) (valueProp (isMultiSelectable cls (nativeElement a))) =
         has_prop cls (nativeElement a) (indexProp (isMultiSelectable cls (nativeElement a)))")
    case False
    then show ?thesis
      using assms None
      by (simp add: getSelectableProperty_def getSelectableProperty_one_exposed Let_def)
  next
    case True
    show ?thesis
    proof (cases "v = JUndefined \<or> v = JNull")
      case True
      then show ?thesis
        using assms None \<open>has_prop cls (nativeElement a) _ = has_prop cls (nativeElement a) _\<close>
        by (simp add: getSelectableProperty_def getSelectableProperty_pending)
    next
      case False
      then show ?thesis
        using assms None True
        by (simp add: probe_suppressed Let_def)
    qed
  qed
qed

lemma assign_stmt_suppressed_frame:
  "isWritingValue a \<Longrightarrow>
   onChange_calls (snd (assign_stmt cls a p v)) = onChange_calls a"
  by (simp add: assign_stmt_suppressed)

lemma writeValue_onChange_calls:
  "onChange_calls (snd (writeValue cls a v)) = onChange_calls a"
proof -
  define s where "s = a\<lparr>isWritingValue := True\<rparr>"
  have s: "isWritingValue s" "onChange_calls s = onChange_calls a"
    by (simp_all add: s_def)
  define g where "g = getSelectableProperty cls s v"
  have g: "isWritingValue (snd g)" "onChange_calls (snd g) = onChange_calls a"
    using getSelectableProperty_suppressed_frame [OF s(1), of cls v] s(2)
    by (simp_all add: g_def)
  have sel: "onChange_calls (snd (and_then g
       (\<lambda>property a1. case property of Some p \<Rightarrow> assign_stmt cls a1 p v | None \<Rightarrow> (Inr (), a1))))
     = onChange_calls a"
  proof (cases g)
    case (Pair res a1)
    then show ?thesis
      using g by (cases res) (auto simp: assign_stmt_suppressed_frame split: option.splits)
  qed
  have body: "onChange_calls (snd
      (if isMultiSelectable cls (nativeElement s) \<or> isSelectable cls (nativeElement s) then
         and_then g
           (\<lambda>property a1. case property of Some p \<Rightarrow> assign_stmt cls a1 p v | None \<Rightarrow> (Inr (), a1))
       else if isCheckedElement cls (nativeElement s) then
         assign_stmt cls s ''checked'' (JBool (to_boolean v))
       else DefaultValueAccessor_writeValue cls s v)) = onChange_calls a"
    using sel s by (simp add: assign_stmt_suppressed_frame DefaultValueAccessor_writeValue_def)
  show ?thesis
    unfolding writeValue_def Let_def s_def [symmetric] g_def [symmetric]
    using body
    by (cases "(if isMultiSelectable cls (nativeElement s) \<or> isSelectable cls (nativeElement s) then
         and_then g
           (\<lambda>property a1. case property of Some p \<Rightarrow> assign_stmt cls a1 p v | None \<Rightarrow> (Inr (), a1))
       else if isCheckedElement cls (nativeElement s) then
         assign_stmt cls s ''checked'' (JBool (to_boolean v))
       else DefaultValueAccessor_writeValue cls s v)")
      (auto simp: and_then_def split: sum.splits)
qed

lemma writeValue_returned_flag:
  "fst (writeValue cls a v) = Inr () \<Longrightarrow> \<not> isWritingValue (snd (writeValue cls a v))"
  unfolding writeValue_def Let_def and_then_def
  by (auto split: prod.splits sum.splits)

lemma onChangedEvent_default_forwards:
  assumes "\<not> isWritingValue s"
    and "event_type ev = ''checked-changed'' \<or> event_type ev = ''value-changed''"
  shows "length (onChange_calls (snd (onChangedEvent cls s ev))) = Suc (length (onChange_calls s))"
proof -
  define g where "g = getSelectableProperty_in no_listener cls s JUndefined"
  obtain r where r: "fst g = Inr r" and calls: "onChange_calls (snd g) = onChange_calls s"
    using getSelectableProperty_no_value_frame [of JUndefined no_listener cls s]
    by (auto simp: g_def)
  have other: "\<not> (event_type ev = ''selected-items-changed'' \<or>
                  event_type ev = ''selected-item-changed'')"
    "\<not> (event_type ev = ''selected-values-changed'' \<or> event_type ev = ''selected-changed'')"
    using assms(2) by auto
  have "onChangedEvent cls s ev =
    and_then
      (if isMultiSelectable cls (nativeElement s) \<or> isSelectable cls (nativeElement s) then
         and_then g (\<lambda>property a2. (Inr (case property of Some p \<Rightarrow> p | None \<Rightarrow> ''undefined''), a2))
       else if isCheckedElement cls (nativeElement s) then (Inr ''checked'', s)
       else (Inr ''value'', s))
      (\<lambda>property a2.
         (Inr (), a2\<lparr>onChange_calls :=
                      onChange_calls a2 @ [get_prop cls (nativeElement a2) property]\<rparr>))"
    unfolding onChangedEvent_def Let_def g_def
    by (simp only: assms(1) other if_True if_False not_False_eq_True and_then_Inr)
  then show ?thesis
    by (simp add: and_then_returned [OF r] calls)
qed

lemma writeValue_thrown_flag:
  assumes "fst (writeValue cls a v) = Inl err"
  shows "isWritingValue (snd (writeValue cls a v))"
proof -
  define s where "s = a\<lparr>isWritingValue := True\<rparr>"
  have s: "isWritingValue s"
    by (simp add: s_def)
  define g where "g = getSelectableProperty cls s v"
  have g: "isWritingValue (snd g)"
    using getSelectableProperty_suppressed_frame [OF s, of cls v] by (simp add: g_def)
  define body where "body =
      (if isMultiSelectable cls (nativeElement s) \<or> isSelectable cls (nativeElement s) then
         and_then g
           (\<lambda>property a1. case property of Some p \<Rightarrow> assign_stmt cls a1 p v | None \<Rightarrow> (Inr (), a1))
       else if isCheckedElement cls (nativeElement s) then
         assign_stmt cls s ''checked'' (JBool (to_boolean v))
       else DefaultValueAccessor_writeValue cls s v)"
  have sel: "isWritingValue (snd (and_then g
       (\<lambda>property a1. case property of Some p \<Rightarrow> assign_stmt cls a1 p v | None \<Rightarrow> (Inr (), a1))))"
  proof (cases g)
    case (Pair res a1)
    then show ?thesis
      using g by (cases res) (auto simp: assign_stmt_suppressed split: option.splits)
  qed
  have flag: "isWritingValue (snd body)"
    using sel s by (simp add: body_def assign_stmt_suppressed DefaultValueAccessor_writeValue_def)
  have w: "writeValue cls a v = and_then body (\<lambda>_ a'. (Inr (), a'\<lparr>isWritingValue := False\<rparr>))"
    by (simp add: writeValue_def Let_def body_def g_def s_def)
  show ?thesis
    using assms flag unfolding w
    by (cases body) (auto simp: and_then_def split: sum.splits)
qed

section \<open>The probe\<close>

lemma writeValue_probe:
  assumes "useSelectableValueProp a = None"
    and "has_prop cls (nativeElement a) (valueProp (isMultiSelectable cls (nativeElement a)))"
    and "has_prop cls (nativeElement a) (indexProp (isMultiSelectable cls (nativeElement a)))"
    and "v \<noteq> JUndefined" and "v \<noteq> JNull"
  shows "writeValue cls a v =
     (let e = nativeElement a;
          vp = valueProp (isMultiSelectable cls e);
          ip = indexProp (isMultiSelectable cls e);
          r1 = set_prop cls e vp v;
          d = strict_eq (get_prop cls (after r1) vp) v;
          r2 = set_prop cls (after r1) vp (get_prop cls e vp);
          r3 = set_prop cls (after r2) (if d then vp else ip) v
      in if threw r2 then
           (Inl Thrown,
            a\<lparr>isWritingValue := True, useSelectableValueProp := Some d,
              assigned := assigned a @ [(vp, v), (vp, get_prop cls e vp)],
              nativeElement := after r2\<rparr>)
         else
           (if threw r3 then Inl Thrown else Inr (),
            a\<lparr>isWritingValue := threw r3, useSelectableValueProp := Some d,
              assigned := assigned a @
                [(vp, v), (vp, get_prop cls e vp), (if d then vp else ip, v)],
              nativeElement := after r3\<rparr>))"
proof -
  have sel: "isMultiSelectable cls (nativeElement a) \<or> isSelectable cls (nativeElement a)"
    using assms(2) by (intro exposed_is_selectable) simp
  note probe = probe_suppressed [where a = "a\<lparr>isWritingValue := True\<rparr>" and cls = cls and v = v,
      simplified, OF assms(1) _ assms(4,5)]
  show ?thesis
    using sel assms(2,3)
    by (simp add: writeValue_def Let_def probe assign_stmt_suppressed)
qed






section \<open>Change notifications outside a write\<close>

lemma onChangedEvent_ignores_payload:
  "onChangedEvent cls s (ev\<lparr>detail := d\<rparr>) = onChangedEvent cls s ev"
  by (simp add: onChangedEvent_def)

lemma getSelectableProperty_no_value_cases:
  obtains (decided) p s1 where
      "getSelectableProperty_in no_listener cls s JUndefined = (Inr (Some p), s1)"
      "getSelectableProperty_in no_listener cls s1 JUndefined = (Inr (Some p), s1)"
      "nativeElement s1 = nativeElement s" "onChange_calls s1 = onChange_calls s"
      "p = valueProp (isMultiSelectable cls (nativeElement s)) \<or>
       p = indexProp (isMultiSelectable cls (nativeElement s))"
    | (pending) "getSelectableProperty_in no_listener cls s JUndefined = (Inr None, s)"
proof (cases "useSelectableValueProp s")
  case (Some d)
  show ?thesis
    by (rule decided [of _ s]) (auto simp: getSelectableProperty_decided [OF Some])
next
  case None
  show ?thesis
  proof (cases "has_prop cls (nativeElement s) (valueProp (isMultiSelectable cls (nativeElement s))) =
         has_prop cls (nativeElement s) (indexProp (isMultiSelectable cls (nativeElement s)))")
    case True
    show ?thesis
      by (rule pending) (simp add: getSelectableProperty_pending [OF None True])
  next
    case False
    define d where
      "d = has_prop cls (nativeElement s) (valueProp (isMultiSelectable cls (nativeElement s)))"
    have first: "getSelectableProperty_in no_listener cls s JUndefined =
        (Inr (Some (if d then valueProp (isMultiSelectable cls (nativeElement s))
                    else indexProp (isMultiSelectable cls (nativeElement s)))),
         s\<lparr>useSelectableValueProp := Some d\<rparr>)"
      using getSelectableProperty_one_exposed [OF None False, of no_listener JUndefined]
      by (simp add: Let_def d_def)
    have second: "getSelectableProperty_in no_listener cls (s\<lparr>useSelectableValueProp := Some d\<rparr>)
        JUndefined =
        (Inr (Some (if d then valueProp (isMultiSelectable cls (nativeElement s))
                    else indexProp (isMultiSelectable cls (nativeElement s)))),
         s\<lparr>useSelectableValueProp := Some d\<rparr>)"
      by (simp add: getSelectableProperty_decided)
    show ?thesis
      by (rule decided [OF first second]) auto
  qed
qed

lemma onChangedEvent_selection_event:
  assumes "\<not> isWritingValue s"
    and "isMultiSelectable cls (nativeElement s) \<or> isSelectable cls (nativeElement s)"
    and "m = isMultiSelectable cls (nativeElement s)"
    and "event_type ev = ''selected-items-changed'' \<or> event_type ev = ''selected-item-changed''"
  shows "onChange_calls (snd (onChangedEvent cls s ev)) =
     (if fst (getSelectableProperty_in no_listener cls s JUndefined) = Inr (Some (valueProp m))
      then onChange_calls s @ [get_prop cls (nativeElement s) (valueProp m)]
      else onChange_calls s)"
proof -
  have start: "onChangedEvent cls s ev =
    and_then
      (and_then (getSelectableProperty_in no_listener cls s JUndefined)
         (\<lambda>property a1.
            (Inr (property = Some ''selectedItems'' \<or> property = Some ''selectedItem''), a1)))
      (\<lambda>changed a1.
         if changed then
           and_then
             (and_then (getSelectableProperty_in no_listener cls a1 JUndefined)
                (\<lambda>property a2. (Inr (case property of Some p \<Rightarrow> p | None \<Rightarrow> ''undefined''), a2)))
             (\<lambda>property a2.
                (Inr (), a2\<lparr>onChange_calls :=
                             onChange_calls a2 @ [get_prop cls (nativeElement a2) property]\<rparr>))
         else (Inr (), a1))"
    unfolding onChangedEvent_def Let_def
    by (simp only: assms(1,2,4) if_True not_False_eq_True)
  have names: "(valueProp m = ''selectedItems'' \<or> valueProp m = ''selectedItem'')"
    "\<not> (indexProp m = ''selectedItems'' \<or> indexProp m = ''selectedItem'')"
    "valueProp m \<noteq> indexProp m"
    by (simp_all add: valueProp_def indexProp_def)
  show ?thesis
  proof (cases rule: getSelectableProperty_no_value_cases [of cls s])
    case (decided p s1)
    then show ?thesis
      using names assms(3) by (auto simp: start)
  next
    case pending
    then show ?thesis
      by (simp add: start)
  qed
qed

lemma onChangedEvent_index_event:
  assumes "\<not> isWritingValue s"
    and "isMultiSelectable cls (nativeElement s) \<or> isSelectable cls (nativeElement s)"
    and "m = isMultiSelectable cls (nativeElement s)"
    and "event_type ev = ''selected-values-changed'' \<or> event_type ev = ''selected-changed''"
  shows "onChange_calls (snd (onChangedEvent cls s ev)) =
     (if fst (getSelectableProperty_in no_listener cls s JUndefined) = Inr (Some (indexProp m))
      then onChange_calls s @ [get_prop cls (nativeElement s) (indexProp m)]
      else onChange_calls s)"
proof -
  have other: "\<not> (event_type ev = ''selected-items-changed'' \<or>
                  event_type ev = ''selected-item-changed'')"
    using assms(4) by auto
  have start: "onChangedEvent cls s ev =
    and_then
      (and_then (getSelectableProperty_in no_listener cls s JUndefined)
         (\<lambda>property a1.
            (Inr (property = Some ''selectedValues'' \<or> property = Some ''selected''), a1)))
      (\<lambda>changed a1.
         if changed then
           and_then
             (and_then (getSelectableProperty_in no_listener cls a1 JUndefined)
                (\<lambda>property a2. (Inr (case property of Some p \<Rightarrow> p | None \<Rightarrow> ''undefined''), a2)))
             (\<lambda>property a2.
                (Inr (), a2\<lparr>onChange_calls :=
                             onChange_calls a2 @ [get_prop cls (nativeElement a2) property]\<rparr>))
         else (Inr (), a1))"
    unfolding onChangedEvent_def Let_def
    by (simp only: assms(1,2,4) other if_True if_False not_False_eq_True)
  have names: "(indexProp m = ''selectedValues'' \<or> indexProp m = ''selected'')"
    "\<not> (valueProp m = ''selectedValues'' \<or> valueProp m = ''selected'')"
    "valueProp m \<noteq> indexProp m"
    by (simp_all add: valueProp_def indexProp_def)
  show ?thesis
  proof (cases rule: getSelectableProperty_no_value_cases [of cls s])
    case (decided p s1)
    then show ?thesis
      using names assms(3) by (auto simp: start)
  next
    case pending
    then show ?thesis
      by (simp add: start)
  qed
qed

section \<open>The example elements, evaluated\<close>

lemma single_select_shape:
  "isMultiSelectable (typed_item r evs) (single_select x) = False"
  "has_prop (typed_item r evs) (single_select x) ''selectedItem'' = True"
  "has_prop (typed_item r evs) (single_select x) ''selected'' = True"
  "get_prop (typed_item r evs) (single_select x) ''selectedItem'' = x"
  by (simp_all add: typed_item_def custom_element_def single_select_def isMultiSelectable_def
      lookup_prop_def)

lemma typed_item_rejects:
  "\<not> is_string v \<Longrightarrow> r \<noteq> Clears \<Longrightarrow>
   set_prop (typed_item r evs) (single_select x) ''selectedItem'' v =
     \<lparr>threw = (r = Throws \<or> r = StoresAndThrows),
      after = (if r = Stores \<or> r = StoresAndThrows
               then (''selectedItem'', v) # single_select x else single_select x),
      emitted = map (\<lambda>ty. \<lparr>event_type = ty, detail = v,
        target = (if r = Stores \<or> r = StoresAndThrows
                  then (''selectedItem'', v) # single_select x else single_select x)\<rparr>) evs\<rparr>"
  by (simp add: typed_item_def custom_element_def single_select_def Let_def)

lemma typed_item_stores:
  "map_of e p \<noteq> None \<Longrightarrow> p \<noteq> ''selectedItem'' \<or> is_string v \<Longrightarrow>
   set_prop (typed_item r evs) e p v =
     \<lparr>threw = False, after = (p, v) # e,
      emitted = map (\<lambda>ty. \<lparr>event_type = ty, detail = v, target = (p, v) # e\<rparr>) evs\<rparr>"
  by (auto simp: typed_item_def custom_element_def Let_def)

section \<open>The claims about the form adapter\<close>

text \<open>
  Claim C1 (the speculative probe). The claim has the index-property chosen when the
  speculative assignment throws. On an element whose \<open>selectedItem\<close> setter stores a
  number and then throws, the exception is caught, the read-back is equal, and the code
  memoizes the item-property and assigns \<open>selectedItem\<close> again in the write proper,
  whose exception leaves \<open>writeValue\<close>. Where the setter throws without storing, the
  code chooses the index-property.
\<close>

theorem thrown_speculative_write_chooses_item:
  "threw (set_prop (typed_item StoresAndThrows []) (single_select (JStr ''a''))
     ''selectedItem'' (JNum 42)) \<and>
   fst (getSelectableProperty (typed_item StoresAndThrows [])
     ((new_accessor (single_select (JStr ''a'')))\<lparr>isWritingValue := True\<rparr>) (JNum 42)) =
     Inr (Some ''selectedItem'') \<and>
   useSelectableValueProp (snd (writeValue (typed_item StoresAndThrows [])
     (new_accessor (single_select (JStr ''a''))) (JNum 42))) = Some True \<and>
   assigned (snd (writeValue (typed_item StoresAndThrows [])
     (new_accessor (single_select (JStr ''a''))) (JNum 42))) =
     [(''selectedItem'', JNum 42), (''selectedItem'', JStr ''a''), (''selectedItem'', JNum 42)] \<and>
   fst (writeValue (typed_item StoresAndThrows [])
     (new_accessor (single_select (JStr ''a''))) (JNum 42)) = Inl Thrown \<and>
   threw (set_prop (typed_item Throws []) (single_select (JStr ''a''))
     ''selectedItem'' (JNum 42)) \<and>
   useSelectableValueProp (snd (writeValue (typed_item Throws [])
     (new_accessor (single_select (JStr ''a''))) (JNum 42))) = Some False"
proof -
  define cls where "cls = typed_item StoresAndThrows []"
  define e where "e = single_select (JStr ''a'')"
  define a where "a = new_accessor e"
  have a: "useSelectableValueProp a = None" "nativeElement a = e" "assigned a = []"
    "\<not> isWritingValue a"
    by (simp_all add: a_def new_accessor_def)
  have shape: "isMultiSelectable cls e = False" "has_prop cls e ''selectedItem''"
    "has_prop cls e ''selected''" "get_prop cls e ''selectedItem'' = JStr ''a''"
    by (simp_all add: cls_def e_def single_select_shape)
  have spec: "set_prop cls e ''selectedItem'' (JNum 42) =
      \<lparr>threw = True, after = (''selectedItem'', JNum 42) # e, emitted = []\<rparr>"
    by (simp add: cls_def e_def typed_item_rejects is_string_def)
  have readback: "get_prop cls ((''selectedItem'', JNum 42) # e) ''selectedItem'' = JNum 42"
    by (simp add: cls_def typed_item_def custom_element_def lookup_prop_def)
  have restore: "set_prop cls ((''selectedItem'', JNum 42) # e) ''selectedItem'' (JStr ''a'') =
      \<lparr>threw = False, after = (''selectedItem'', JStr ''a'') # (''selectedItem'', JNum 42) # e,
       emitted = []\<rparr>"
    by (simp add: cls_def typed_item_stores is_string_def)
  have proper: "threw (set_prop cls
      ((''selectedItem'', JStr ''a'') # (''selectedItem'', JNum 42) # e)
      ''selectedItem'' (JNum 42))"
    by (simp add: cls_def typed_item_def custom_element_def is_string_def Let_def)
  have probe: "getSelectableProperty cls (a\<lparr>isWritingValue := True\<rparr>) (JNum 42) =
      (Inr (Some ''selectedItem''),
       a\<lparr>isWritingValue := True, useSelectableValueProp := Some True,
         assigned := [(''selectedItem'', JNum 42), (''selectedItem'', JStr ''a'')],
         nativeElement := (''selectedItem'', JStr ''a'') # (''selectedItem'', JNum 42) # e\<rparr>)"
    using probe_suppressed [of "a\<lparr>isWritingValue := True\<rparr>" cls "JNum 42"]
    by (simp add: a shape valueProp_def indexProp_def Let_def spec readback restore strict_eq_def)
  have stored: "useSelectableValueProp (snd (writeValue cls a (JNum 42))) = Some True \<and>
    assigned (snd (writeValue cls a (JNum 42))) =
      [(''selectedItem'', JNum 42), (''selectedItem'', JStr ''a''), (''selectedItem'', JNum 42)] \<and>
    fst (writeValue cls a (JNum 42)) = Inl Thrown"
    using writeValue_probe [of a cls "JNum 42"] proper
    by (simp add: a shape valueProp_def indexProp_def Let_def spec readback restore strict_eq_def)
  define sib where "sib = typed_item Throws []"
  have sib_shape: "isMultiSelectable sib e = False" "has_prop sib e ''selectedItem''"
    "has_prop sib e ''selected''" "get_prop sib e ''selectedItem'' = JStr ''a''"
    by (simp_all add: sib_def e_def single_select_shape)
  have sib_spec: "set_prop sib e ''selectedItem'' (JNum 42) =
      \<lparr>threw = True, after = e, emitted = []\<rparr>"
    by (simp add: sib_def e_def typed_item_rejects is_string_def)
  have sib_restore: "\<not> threw (set_prop sib e ''selectedItem'' (JStr ''a''))"
    by (simp add: sib_def e_def typed_item_stores is_string_def single_select_def)
  have sibling: "useSelectableValueProp (snd (writeValue sib a (JNum 42))) = Some False"
    using writeValue_probe [of a sib "JNum 42"] sib_restore
    by (simp add: a sib_shape valueProp_def indexProp_def Let_def sib_spec strict_eq_def)
  have "threw (set_prop cls e ''selectedItem'' (JNum 42))"
    "threw (set_prop sib e ''selectedItem'' (JNum 42))"
    by (simp_all add: spec sib_spec)
  then show ?thesis
    using probe stored sibling unfolding a_def e_def cls_def sib_def by simp
qed




text \<open>
  Claim C3 (multi-selectable detection). The claim asks that an element with
  \<open>multi === true\<close> that exposes \<open>selectedItems\<close> but not \<open>selectedValues\<close> be
  classified as multi-selectable. \<open>isMultiSelectable\<close> tests \<open>selectedValues\<close> in both
  disjuncts (see \<open>isMultiSelectable_iff\<close>) and answers no for such an element.
\<close>

theorem isMultiSelectable_misses_selectedItems:
  "get_prop (typed_item Stores []) [(''multi'', JBool True), (''selectedItems'', JRef 0)] ''multi''
     = JBool True \<and>
   has_prop (typed_item Stores []) [(''multi'', JBool True), (''selectedItems'', JRef 0)]
     ''selectedItems'' \<and>
   \<not> isMultiSelectable (typed_item Stores [])
     [(''multi'', JBool True), (''selectedItems'', JRef 0)]"
  by (simp add: isMultiSelectable_def isPropertyDefined_def typed_item_def custom_element_def
      lookup_prop_def)

text \<open>
  Claim C4 (suppression during a write). While \<open>writeValue\<close> runs no notification is
  forwarded, whatever the element dispatches (\<open>writeValue_onChange_calls\<close>), and a
  write that returns leaves the guard flag down (\<open>writeValue_returned_flag\<close>). But the
  flag is not set for exactly the duration of the write: an exception of an assignment
  outside the probe's \<open>try\<close> leaves \<open>writeValue\<close> before the flag is reset
  (\<open>writeValue_thrown_flag\<close>). On an element whose \<open>selectedItem\<close> throws on a
  number, the write of 42 throws, the flag stays set, and the notification of a later
  selection, which is forwarded when no write came before, is dropped.
\<close>

theorem thrown_write_leaves_guard_set:
  "fst (writeValue (typed_item Throws []) (new_accessor [(''selectedItem'', JStr ''a'')])
     (JNum 42)) = Inl Thrown \<and>
   isWritingValue (snd (writeValue (typed_item Throws [])
     (new_accessor [(''selectedItem'', JStr ''a'')]) (JNum 42))) \<and>
   onChange_calls (lifetime (typed_item Throws []) (new_accessor [(''selectedItem'', JStr ''a'')])
     [WriteValue (JNum 42),
      ChangedEvent \<lparr>event_type = ''selected-item-changed'', detail = JStr ''b'',
                    target = [(''selectedItem'', JStr ''b'')]\<rparr>]) = [] \<and>
   onChange_calls (lifetime (typed_item Throws []) (new_accessor [(''selectedItem'', JStr ''a'')])
     [ChangedEvent \<lparr>event_type = ''selected-item-changed'', detail = JStr ''b'',
                    target = [(''selectedItem'', JStr ''b'')]\<rparr>]) = [JStr ''b'']"
proof -
  define cls where "cls = typed_item Throws []"
  define e :: props where "e = [(''selectedItem'', JStr ''a'')]"
  define e' :: props where "e' = [(''selectedItem'', JStr ''b'')]"
  define ev :: "props event" where
    "ev = \<lparr>event_type = ''selected-item-changed'', detail = JStr ''b'', target = e'\<rparr>"
  define a where "a = new_accessor e"
  have a: "useSelectableValueProp a = None" "nativeElement a = e" "assigned a = []"
    "\<not> isWritingValue a" "onChange_calls a = []"
    by (simp_all add: a_def new_accessor_def)
  have shape: "isMultiSelectable cls e = False" "has_prop cls e ''selectedItem'' = True"
    "has_prop cls e ''selected'' = False"
    by (simp_all add: cls_def e_def typed_item_def custom_element_def isMultiSelectable_def
        lookup_prop_def)
  have shape': "isMultiSelectable cls e' = False" "has_prop cls e' ''selectedItem'' = True"
    "has_prop cls e' ''selected'' = False" "get_prop cls e' ''selectedItem'' = JStr ''b''"
    by (simp_all add: cls_def e'_def typed_item_def custom_element_def isMultiSelectable_def
        lookup_prop_def)
  have exposed: "has_prop cls (nativeElement a) (valueProp (isMultiSelectable cls (nativeElement a))) \<noteq>
      has_prop cls (nativeElement a) (indexProp (isMultiSelectable cls (nativeElement a)))"
    by (simp add: a shape valueProp_def indexProp_def)
  have throws: "threw (set_prop cls e ''selectedItem'' (JNum 42))"
    by (simp add: cls_def e_def typed_item_def custom_element_def is_string_def Let_def)
  define a1 where "a1 = snd (writeValue cls a (JNum 42))"
  have w: "fst (writeValue cls a (JNum 42)) = Inl Thrown" "isWritingValue a1"
    "onChange_calls a1 = []"
    using writeValue_one_exposed [OF a(1) exposed, of "JNum 42"] throws
    by (simp_all add: a1_def Let_def a shape valueProp_def indexProp_def)
  have dropped: "onChange_calls (snd (onChangedEvent cls (a1\<lparr>nativeElement := e'\<rparr>) ev)) = []"
    using w(2,3) by (simp add: onChangedEvent_suppressed)
  define s where "s = a\<lparr>nativeElement := e'\<rparr>"
  have s: "\<not> isWritingValue s" "nativeElement s = e'" "useSelectableValueProp s = None"
    "onChange_calls s = []"
    by (simp_all add: s_def a)
  have exposed': "has_prop cls (nativeElement s) (valueProp (isMultiSelectable cls (nativeElement s))) \<noteq>
      has_prop cls (nativeElement s) (indexProp (isMultiSelectable cls (nativeElement s)))"
    by (simp add: s shape' valueProp_def indexProp_def)
  have resolved: "fst (getSelectableProperty_in no_listener cls s JUndefined) =
      Inr (Some (valueProp False))"
    using getSelectableProperty_one_exposed [OF s(3) exposed', of no_listener JUndefined]
    by (simp add: Let_def s shape' valueProp_def)
  have selectable: "isMultiSelectable cls (nativeElement s) \<or> isSelectable cls (nativeElement s)"
    by (simp add: s isSelectable_def isPropertyDefined_def shape')
  have forwarded: "onChange_calls (snd (onChangedEvent cls s ev)) = [JStr ''b'']"
    using onChangedEvent_selection_event [OF s(1) selectable, of False ev] resolved
    by (simp add: s shape' ev_def valueProp_def)
  show ?thesis
    using w(1,2) dropped forwarded
    unfolding a1_def s_def a_def ev_def e'_def e_def cls_def by simp
qed

text \<open>
  Claim C5 (relevance of a notification, and where the forwarded value is read). The
  handler never reads the event's payload (\<open>onChangedEvent_ignores_payload\<close>), and an
  item or index notification is forwarded exactly when the resolved property is the
  item or index property, with that property's value
  (\<open>onChangedEvent_selection_event\<close>, \<open>onChangedEvent_index_event\<close>). But a
  \<open>value-changed\<close> or \<open>checked-changed\<close> notification that reaches an element with
  both candidate properties before a decision is made is forwarded although no property
  is resolved: \<open>getSelectableProperty\<close> returns \<open>undefined\<close>, and the handler
  forwards the element's property of that name, \<open>undefined\<close>, while
  \<open>selectedItem\<close> holds a value.
\<close>

theorem undecided_element_forwards_undefined:
  "getSelectableProperty_in no_listener (typed_item Stores [])
     (new_accessor (single_select (JStr ''a''))) JUndefined =
     (Inr None, new_accessor (single_select (JStr ''a''))) \<and>
   onChangedEvent (typed_item Stores []) (new_accessor (single_select (JStr ''a'')))
     \<lparr>event_type = ''value-changed'', detail = JStr ''b'',
      target = single_select (JStr ''a'')\<rparr> =
     (Inr (), (new_accessor (single_select (JStr ''a'')))\<lparr>onChange_calls := [JUndefined]\<rparr>)"
proof -
  define cls where "cls = typed_item Stores []"
  define e where "e = single_select (JStr ''a'')"
  define a where "a = new_accessor e"
  have a: "useSelectableValueProp a = None" "nativeElement a = e" "\<not> isWritingValue a"
    "onChange_calls a = []"
    by (simp_all add: a_def new_accessor_def)
  have shape: "isMultiSelectable cls e = False" "has_prop cls e ''selectedItem''"
    "has_prop cls e ''selected''"
    by (simp_all add: cls_def e_def single_select_shape)
  have selectable: "isSelectable cls e"
    using shape by (simp add: isSelectable_def isPropertyDefined_def)
  have unresolved: "getSelectableProperty_in no_listener cls a JUndefined = (Inr None, a)"
    by (rule getSelectableProperty_pending)
      (simp_all add: a shape valueProp_def indexProp_def)
  have reads: "get_prop cls e ''undefined'' = JUndefined"
    by (simp add: cls_def e_def typed_item_def custom_element_def lookup_prop_def
        single_select_def)
  have "onChangedEvent cls a
      \<lparr>event_type = ''value-changed'', detail = JStr ''b'', target = e\<rparr> =
      (Inr (), a\<lparr>onChange_calls := [JUndefined]\<rparr>)"
    by (simp add: onChangedEvent_def Let_def a selectable unresolved reads)
  with unresolved show ?thesis
    unfolding a_def e_def cls_def by simp
qed

text \<open>
  Claim C6 (write without a value while undecided). For an element that exposes both
  candidate properties, with no decision memoized, \<open>writeValue\<close> of \<open>undefined\<close> or
  \<open>null\<close> returns normally and changes nothing: no property is assigned, the element
  is as it was, the decision stays open and the guard flag is down again.
\<close>

theorem writeValue_pending_is_noop:
  assumes "useSelectableValueProp a = None"
    and "has_prop cls (nativeElement a) (valueProp (isMultiSelectable cls (nativeElement a)))"
    and "has_prop cls (nativeElement a) (indexProp (isMultiSelectable cls (nativeElement a)))"
    and "v = JUndefined \<or> v = JNull"
  shows "writeValue cls a v = (Inr (), a\<lparr>isWritingValue := False\<rparr>) \<and>
         assigned (snd (writeValue cls a v)) = assigned a \<and>
         nativeElement (snd (writeValue cls a v)) = nativeElement a \<and>
         useSelectableValueProp (snd (writeValue cls a v)) = None"
proof -
  have sel: "isMultiSelectable cls (nativeElement a) \<or> isSelectable cls (nativeElement a)"
    using assms(2) by (intro exposed_is_selectable) simp
  have "getSelectableProperty cls (a\<lparr>isWritingValue := True\<rparr>) v =
          (Inr None, a\<lparr>isWritingValue := True\<rparr>)"
    unfolding getSelectableProperty_def
    using assms by (intro getSelectableProperty_pending) simp_all
  then have "writeValue cls a v = (Inr (), a\<lparr>isWritingValue := False\<rparr>)"
    using sel by (simp add: writeValue_def Let_def)
  then show ?thesis
    using assms(1) by simp
qed

text \<open>Claim C6 on a single-select element with both properties, written \<open>undefined\<close>.\<close>

theorem writeValue_pending_is_noop_witness:
  "writeValue (typed_item Stores []) (new_accessor (single_select JNull)) JUndefined =
     (Inr (), new_accessor (single_select JNull)) \<and>
   assigned (snd (writeValue (typed_item Stores []) (new_accessor (single_select JNull)) JUndefined))
     = []"
proof -
  have "has_prop (typed_item Stores []) (single_select JNull) ''selectedItem''"
    "has_prop (typed_item Stores []) (single_select JNull) ''selected''"
    "\<not> isMultiSelectable (typed_item Stores []) (single_select JNull)"
    by (simp_all add: typed_item_def custom_element_def single_select_def
        isMultiSelectable_def lookup_prop_def)
  then show ?thesis
    using writeValue_pending_is_noop
      [of "new_accessor (single_select JNull)" "typed_item Stores []" JUndefined]
    by (simp add: new_accessor_def valueProp_def indexProp_def)
qed




section \<open>The claims about the build-configuration resolver\<close>

text \<open>
  Claim C8 (locating the configuration file). \<open>getAngularJsonPath\<close> checks the
  resolved \<open>./angular.json\<close> first and returns it when it exists, without looking
  further, so that it wins when both files exist; otherwise it checks the resolved
  \<open>./.angular-cli.json\<close> and returns it when it exists; when neither exists it fails
  with an \<open>Error\<close> whose message contains both file names.
\<close>

theorem getAngularJsonPath_first_existing:
  assumes "angularJsonPath = path_resolve host [''./angular.json'']"
    and "angularCliJsonPath = path_resolve host [''./.angular-cli.json'']"
  shows "(file_exists host angularJsonPath \<longrightarrow>
           getAngularJsonPath host = (Inr angularJsonPath, [Exists angularJsonPath])) \<and>
         (\<not> file_exists host angularJsonPath \<and> file_exists host angularCliJsonPath \<longrightarrow>
           getAngularJsonPath host =
             (Inr angularCliJsonPath, [Exists angularJsonPath, Exists angularCliJsonPath])) \<and>
         (\<not> file_exists host angularJsonPath \<and> \<not> file_exists host angularCliJsonPath \<longrightarrow>
           (\<exists>message.
              getAngularJsonPath host =
                (Inl (Error message), [Exists angularJsonPath, Exists angularCliJsonPath]) \<and>
              sublist ''angular.json'' message \<and> sublist ''.angular-cli.json'' message))"
  using assms message_names_both
  by (simp add: getAngularJsonPath_def Let_def)

text \<open>Claim C8 on three directories: both files, the second file only, neither file.\<close>

theorem getAngularJsonPath_first_existing_witness:
  "getAngularJsonPath
     (host_with [(''./angular.json'', JsonNull), (''./.angular-cli.json'', JsonNull)]) =
     (Inr ''./angular.json'', [Exists ''./angular.json'']) \<and>
   getAngularJsonPath (host_with [(''./.angular-cli.json'', JsonNull)]) =
     (Inr ''./.angular-cli.json'', [Exists ''./angular.json'', Exists ''./.angular-cli.json'']) \<and>
   (\<exists>message.
      getAngularJsonPath (host_with []) =
        (Inl (Error message), [Exists ''./angular.json'', Exists ''./.angular-cli.json'']) \<and>
      sublist ''angular.json'' message \<and> sublist ''.angular-cli.json'' message)"
proof -
  have both: "path_resolve (host_with files) [''./angular.json''] = ''./angular.json''"
    "path_resolve (host_with files) [''./.angular-cli.json''] = ''./.angular-cli.json''"
    for files
    by (simp_all add: host_with_def)
  have ex: "file_exists (host_with files) name = (map_of files name \<noteq> None)" for files name
    by (simp add: host_with_def)
  show ?thesis
    using
      getAngularJsonPath_first_existing
        [of "''./angular.json''"
          "host_with [(''./angular.json'', JsonNull), (''./.angular-cli.json'', JsonNull)]"
          "''./.angular-cli.json''"]
      getAngularJsonPath_first_existing
        [of "''./angular.json''" "host_with [(''./.angular-cli.json'', JsonNull)]"
          "''./.angular-cli.json''"]
      getAngularJsonPath_first_existing
        [of "''./angular.json''" "host_with []" "''./.angular-cli.json''"]
    by (simp add: both ex)
qed

text \<open>
  Claim C9 (the es5-mode queries). \<open>isEs5\<close> compares the target of the loaded
  configuration with \<open>es5\<close> without regard to case: it answers true exactly for the
  four spellings of \<open>es5\<close>, so for \<open>ES5\<close>, \<open>es5\<close> and \<open>Es5\<close>, and false for
  \<open>ES2015\<close>. \<open>isAngularJsonEs5\<close> answers false and loads no file when the project
  has no architect entry of the requested type; with an entry it loads the entry's
  configuration and answers what \<open>isEs5\<close> answers for it, as \<open>isAngularCliJsonEs5\<close>
  does for the configuration of an app.
\<close>

theorem es5_mode_ignores_case:
  "(target_of config = Some t \<longrightarrow>
      isEs5 config = Inr (t \<in> {''es5'', ''eS5'', ''Es5'', ''ES5''})) \<and>
   isEs5 (tsconfig_with [(''target'', JsonString ''ES5'')]) = Inr True \<and>
   isEs5 (tsconfig_with [(''target'', JsonString ''es5'')]) = Inr True \<and>
   isEs5 (tsconfig_with [(''target'', JsonString ''Es5'')]) = Inr True \<and>
   isEs5 (tsconfig_with [(''target'', JsonString ''ES2015'')]) = Inr False \<and>
   (architect json ty = None \<longrightarrow> isAngularJsonEs5 host json ty = (Inr False, [])) \<and>
   (architect json ty = Some arch \<and>
    require host (path_resolve host [AngularJsonProject.root json, tsConfig arch]) = Inr config \<longrightarrow>
      isAngularJsonEs5 host json ty =
        (isEs5 config,
         [Require (path_resolve host [AngularJsonProject.root json, tsConfig arch])])) \<and>
   (require host (path_resolve host [AngularCliJsonApp.root app, tsconfig app]) = Inr config \<longrightarrow>
      isAngularCliJsonEs5 host app =
        (isEs5 config, [Require (path_resolve host [AngularCliJsonApp.root app, tsconfig app])]))"
proof -
  have "target_of config = Some t \<longrightarrow>
      isEs5 config = Inr (t \<in> {''es5'', ''eS5'', ''Es5'', ''ES5''})"
    by (simp add: isEs5_target_of lowered_es5)
  moreover have "isEs5 (tsconfig_with [(''target'', JsonString s)]) =
      Inr (s \<in> {''es5'', ''eS5'', ''Es5'', ''ES5''})" for s
    by (simp add: isEs5_target_of target_of_tsconfig_with lowered_es5)
  moreover have "architect json ty = None \<longrightarrow> isAngularJsonEs5 host json ty = (Inr False, [])"
    by (simp add: isAngularJsonEs5_def)
  moreover have "architect json ty = Some arch \<and>
    require host (path_resolve host [AngularJsonProject.root json, tsConfig arch]) = Inr config \<longrightarrow>
      isAngularJsonEs5 host json ty =
        (isEs5 config,
         [Require (path_resolve host [AngularJsonProject.root json, tsConfig arch])])"
    by (simp add: isAngularJsonEs5_def Let_def)
  moreover have
    "require host (path_resolve host [AngularCliJsonApp.root app, tsconfig app]) = Inr config \<longrightarrow>
      isAngularCliJsonEs5 host app =
        (isEs5 config, [Require (path_resolve host [AngularCliJsonApp.root app, tsconfig app])])"
    by (simp add: isAngularCliJsonEs5_def Let_def)
  ultimately show ?thesis
    by simp
qed

text \<open>
  Claim C9 on the directory of the spec's example: a \<open>tsconfig.json\<close> with target
  \<open>ES5\<close>, then with target \<open>ES2015\<close>, and a project without a \<open>test\<close> entry.
\<close>

theorem es5_mode_ignores_case_witness:
  "isAngularCliJsonEs5
     (host_with [(''tsconfig.json'', tsconfig_with [(''target'', JsonString ''ES5'')])])
     \<lparr>AngularCliJsonApp.root = ''.'', tsconfig = ''tsconfig.json''\<rparr> =
     (Inr True, [Require ''tsconfig.json'']) \<and>
   isAngularCliJsonEs5
     (host_with [(''tsconfig.json'', tsconfig_with [(''target'', JsonString ''ES2015'')])])
     \<lparr>AngularCliJsonApp.root = ''.'', tsconfig = ''tsconfig.json''\<rparr> =
     (Inr False, [Require ''tsconfig.json'']) \<and>
   isAngularJsonEs5 (host_with [])
     \<lparr>AngularJsonProject.root = ''.'', architect = (\<lambda>ty. None)\<rparr> test = (Inr False, [])"
proof -
  define app where "app = \<lparr>AngularCliJsonApp.root = ''.'', tsconfig = ''tsconfig.json''\<rparr>"
  define project where
    "project = \<lparr>AngularJsonProject.root = ''.'', architect = (\<lambda>ty. None)\<rparr>"
  define legacy where "legacy = tsconfig_with [(''target'', JsonString ''ES5'')]"
  define modern where "modern = tsconfig_with [(''target'', JsonString ''ES2015'')]"
  have path: "path_resolve (host_with [(''tsconfig.json'', c)])
         [AngularCliJsonApp.root app, tsconfig app] = ''tsconfig.json''" for c
    by (simp add: host_with_def app_def)
  have loaded: "require (host_with [(''tsconfig.json'', c)])
      (path_resolve (host_with [(''tsconfig.json'', c)])
         [AngularCliJsonApp.root app, tsconfig app]) = Inr c" for c
    by (simp add: host_with_def app_def)
  have none: "architect project test = None"
    by (simp add: project_def)
  note of_legacy = es5_mode_ignores_case
    [where config = legacy and host = "host_with [(''tsconfig.json'', legacy)]" and app = app]
  note of_modern = es5_mode_ignores_case
    [where config = modern and host = "host_with [(''tsconfig.json'', modern)]" and app = app]
  note of_project = es5_mode_ignores_case
    [where json = project and ty = test and host = "host_with []"]
  have "isAngularCliJsonEs5 (host_with [(''tsconfig.json'', legacy)]) app =
      (Inr True, [Require ''tsconfig.json''])"
    using of_legacy loaded [of legacy] unfolding path
    by (simp add: legacy_def)
  moreover have "isAngularCliJsonEs5 (host_with [(''tsconfig.json'', modern)]) app =
      (Inr False, [Require ''tsconfig.json''])"
    using of_modern loaded [of modern] unfolding path
    by (simp add: modern_def)
  moreover have "isAngularJsonEs5 (host_with []) project test = (Inr False, [])"
    using of_project none by blast
  ultimately show ?thesis
    by (simp add: app_def project_def legacy_def modern_def)
qed

text \<open>
  Claim C10 (the unguarded dereference). \<open>isEs5\<close> returns a boolean exactly when the
  configuration is an object whose \<open>compilerOptions\<close> is an object with a string
  \<open>target\<close>; on every other configuration it throws a \<open>TypeError\<close>, for instance on
  one without \<open>compilerOptions\<close>, on one whose \<open>compilerOptions\<close> has no \<open>target\<close>
  and on one whose \<open>target\<close> is a number. The exception passes through
  \<open>isAngularCliJsonEs5\<close>, and through \<open>isAngularJsonEs5\<close> when the architect entry
  is present.
\<close>

theorem isEs5_needs_string_target:
  "((\<exists>b. isEs5 config = Inr b) \<longleftrightarrow> (\<exists>t. target_of config = Some t)) \<and>
   (target_of config = None \<longrightarrow> isEs5 config = Inl TypeError) \<and>
   isEs5 (JsonObject []) = Inl TypeError \<and>
   isEs5 (tsconfig_with []) = Inl TypeError \<and>
   isEs5 (tsconfig_with [(''target'', JsonNumber 5)]) = Inl TypeError \<and>
   (require host (path_resolve host [AngularCliJsonApp.root app, tsconfig app]) = Inr config \<and>
    target_of config = None \<longrightarrow>
      fst (isAngularCliJsonEs5 host app) = Inl TypeError) \<and>
   (architect json ty = Some arch \<and>
    require host (path_resolve host [AngularJsonProject.root json, tsConfig arch]) = Inr config \<and>
    target_of config = None \<longrightarrow>
      fst (isAngularJsonEs5 host json ty) = Inl TypeError)"
proof -
  have "(\<exists>b. isEs5 config = Inr b) \<longleftrightarrow> (\<exists>t. target_of config = Some t)"
    by (cases "target_of config") (simp_all add: isEs5_target_of)
  moreover have none: "target_of config = None \<longrightarrow> isEs5 config = Inl TypeError"
    by (simp add: isEs5_target_of)
  moreover have "isEs5 (JsonObject []) = Inl TypeError"
    "isEs5 (tsconfig_with []) = Inl TypeError"
    "isEs5 (tsconfig_with [(''target'', JsonNumber 5)]) = Inl TypeError"
    by (simp_all add: isEs5_target_of target_of_def tsconfig_with_def)
  moreover have
    "require host (path_resolve host [AngularCliJsonApp.root app, tsconfig app]) = Inr config \<and>
     target_of config = None \<longrightarrow>
      fst (isAngularCliJsonEs5 host app) = Inl TypeError"
    using none by (simp add: isAngularCliJsonEs5_def Let_def)
  moreover have "architect json ty = Some arch \<and>
    require host (path_resolve host [AngularJsonProject.root json, tsConfig arch]) = Inr config \<and>
    target_of config = None \<longrightarrow>
      fst (isAngularJsonEs5 host json ty) = Inl TypeError"
    using none by (simp add: isAngularJsonEs5_def Let_def)
  ultimately show ?thesis
    by simp
qed

text \<open>
  Claim C10 on a configuration that only extends another one, alone and loaded for an
  app, and on one with a string target.
\<close>

theorem isEs5_needs_string_target_witness:
  "isEs5 (JsonObject [(''extends'', JsonString ''./base.json'')]) = Inl TypeError \<and>
   fst (isAngularCliJsonEs5
     (host_with [(''tsconfig.json'', JsonObject [(''extends'', JsonString ''./base.json'')])])
     \<lparr>AngularCliJsonApp.root = ''.'', tsconfig = ''tsconfig.json''\<rparr>) = Inl TypeError \<and>
   (\<exists>b. isEs5 (tsconfig_with [(''target'', JsonString ''es2017'')]) = Inr b)"
proof -
  define cfg where "cfg = JsonObject [(''extends'', JsonString ''./base.json'')]"
  define app where "app = \<lparr>AngularCliJsonApp.root = ''.'', tsconfig = ''tsconfig.json''\<rparr>"
  have none: "target_of cfg = None"
    by (simp add: cfg_def target_of_def)
  have loaded: "require (host_with [(''tsconfig.json'', cfg)])
      (path_resolve (host_with [(''tsconfig.json'', cfg)])
         [AngularCliJsonApp.root app, tsconfig app]) = Inr cfg"
    by (simp add: host_with_def app_def)
  have some: "target_of (tsconfig_with [(''target'', JsonString ''es2017'')]) = Some ''es2017''"
    by (rule target_of_tsconfig_with)
  show ?thesis
    using
      isEs5_needs_string_target [of cfg "host_with [(''tsconfig.json'', cfg)]" app]
      isEs5_needs_string_target [of "tsconfig_with [(''target'', JsonString ''es2017'')]"]
      none loaded some
    unfolding cfg_def [symmetric] app_def [symmetric]
    by simp
qed

end
